theory Spec2Isabelle
  imports Main "HOL-Library.Multiset"
begin

section \<open>Data model\<close>

text \<open>
  The SDK computes with \<open>bn.js\<close> big numbers: arbitrary-precision signed integers.
  Decimal strings such as \<open>position.liquidity\<close> are read with \<open>new BN(..)\<close>; the model
  holds their value.
\<close>

type_synonym BN = int



text \<open>
  Failures are values. The first four are the taxonomy of the specification; the last
  two are what the JavaScript runtime raises: \<open>bn.js\<close> asserts a nonzero divisor, and reading a
  property of \<open>undefined\<close> (an array read out of range) is a TypeError.
\<close>

datatype error = InvalidAmount | PriceOutOfBounds | Overflow | MalformedTickData
  | DivisionByZero | TypeError

definition bindE :: "error + 'a \<Rightarrow> ('a \<Rightarrow> error + 'b) \<Rightarrow> error + 'b" where
  "bindE r f = (case r of Inl e \<Rightarrow> Inl e | Inr v \<Rightarrow> f v)"


record Rewarder =
  coinAddress :: string
  emissions_per_second :: BN
  growth_global :: BN

record Pool =
  liquidity :: BN
  current_sqrt_price :: BN
  current_tick_index :: int
  rewarder_infos :: "Rewarder list"
  rewarder_last_updated_time :: BN

record TickData =
  index :: int
  sqrtPrice :: BN
  liquidityNet :: BN
  rewardersGrowthOutside :: "BN list"

record PositionReward =
  liquidity :: BN
  tick_lower_index :: int
  tick_upper_index :: int
  reward_amount_owed_0 :: BN
  reward_amount_owed_1 :: BN
  reward_amount_owed_2 :: BN
  reward_growth_inside_0 :: BN
  reward_growth_inside_1 :: BN
  reward_growth_inside_2 :: BN


text \<open>
  \<open>class RewarderModule\<close>: the SDK handle and the private array \<open>growthGlobal\<close>, which the
  constructor sets to \<open>[ZERO, ZERO, ZERO]\<close>, \<open>updatePoolRewarder\<close> writes and
  \<open>posRewardersAmountInternal\<close> reads.
\<close>

record 'sdk RewarderModule =
  sdk :: 'sdk
  growthGlobal :: "BN list"


section \<open>Fixed-point helpers (\<open>MathUtil\<close>, not among the sources)\<close>



text \<open>
  Modelled from the spec: \<open>Overflow\<close> is a value that cannot be represented in the target
  width (sections 4.1 and 7); the widths are unsigned.
\<close>

definition isOverflow :: "BN \<Rightarrow> nat \<Rightarrow> bool" where
  "isOverflow n bits = (n < 0 \<or> 2 ^ bits \<le> n)"


text \<open>
  Modelled from the spec: \<open>MathUtil.checkMulDivFloor(v1, v2, denom, limit)\<close> is missing; it is
  \<open>mulDivFloor(a, b, denom) = floor(a * b / denom)\<close> of section 4.1, failing with \<open>Overflow\<close> when
  the result does not fit the width. The division is a \<open>bn.js\<close> division, which throws on a
  zero divisor.
\<close>

definition checkMulDivFloor :: "BN \<Rightarrow> BN \<Rightarrow> BN \<Rightarrow> nat \<Rightarrow> error + BN" where
  "checkMulDivFloor v1 v2 denom limit =
     (if denom = 0 then Inl DivisionByZero
      else let v = (v1 * v2) div denom
           in if isOverflow v limit then Inl Overflow else Inr v)"

text \<open>\<open>BN.div\<close> of \<open>bn.js\<close> truncates toward zero.\<close>

definition bn_div :: "BN \<Rightarrow> BN \<Rightarrow> BN" where
  "bn_div a b = sgn a * sgn b * (\<bar>a\<bar> div \<bar>b\<bar>)"

section \<open>Growth inside a tick range (\<open>utils/tick\<close>, not among the sources)\<close>




section \<open>\<open>RewarderModule\<close>\<close>

subsection \<open>\<open>updatePoolRewarder\<close>\<close>

text \<open>
  An assignment \<open>a[i] = v\<close> to a JavaScript array: in range it replaces the element, at
  \<open>i = a.length\<close> it appends. The loop below counts \<open>i\<close> up from 0, so \<open>i\<close> never passes the
  length and no hole arises.
\<close>

definition assign :: "'a list \<Rightarrow> nat \<Rightarrow> 'a \<Rightarrow> 'a list" where
  "assign a i v = (if i < length a then a[i := v] else a @ [v])"

text \<open>
  The loop \<open>for (let i = 0; i < rewarderInfos.length; i += 1)\<close>, from index \<open>i\<close> on over the
  remaining rewarders. A throwing \<open>checkMulDivFloor\<close> leaves the array as written so far.
\<close>

fun rewarderLoop :: "BN \<Rightarrow> BN \<Rightarrow> Rewarder list \<Rightarrow> nat \<Rightarrow> BN list \<Rightarrow> BN list \<times> error option" where
  "rewarderLoop timeDelta liq [] i g = (g, None)"
| "rewarderLoop timeDelta liq (rewarderInfo # rest) i g =
     (case checkMulDivFloor timeDelta (emissions_per_second rewarderInfo) liq 128 of
        Inl e \<Rightarrow> (g, Some e)
      | Inr rewarderGrowthDelta \<Rightarrow>
          rewarderLoop timeDelta liq rest (Suc i)
            (assign g i (growth_global rewarderInfo + rewarderGrowthDelta)))"

text \<open>
  \<open>updatePoolRewarder(poolObjectId, currentTime)\<close>. The pool is fetched over RPC
  (\<open>sdk.Pool.getPool\<close>); the model takes the fetched pool. It returns the module after the
  call and the returned pool or the error thrown.
\<close>

definition updatePoolRewarder :: "'sdk RewarderModule \<Rightarrow> Pool \<Rightarrow> BN
    \<Rightarrow> 'sdk RewarderModule \<times> (error + Pool)" where
  "updatePoolRewarder this fetched currentTime =
     (let lastTime = rewarder_last_updated_time fetched;
          currentPool = fetched\<lparr>rewarder_last_updated_time := currentTime\<rparr>
      in if Pool.liquidity currentPool = 0 \<or> currentTime = lastTime then (this, Inr currentPool)
         else
           (let timeDelta = bn_div currentTime 1000 - lastTime + 15;
                rewarderInfos = rewarder_infos currentPool
            in case rewarderLoop timeDelta (Pool.liquidity currentPool) rewarderInfos 0
                      (growthGlobal this) of
                 (g, Some e) \<Rightarrow> (this\<lparr>growthGlobal := g\<rparr>, Inl e)
               | (g, None) \<Rightarrow> (this\<lparr>growthGlobal := g\<rparr>, Inr currentPool)))"

subsection \<open>\<open>posRewardersAmountInternal\<close>\<close>


subsection \<open>\<open>posRewardersAmount\<close>\<close>


section \<open>\<open>SwapModule.calculateRates\<close>\<close>

record SwapResult =
  amountIn :: BN
  amountOut :: BN
  feeAmount :: BN
  nextSqrtPrice :: BN
  crossTickNum :: int

record CalculateRatesParams =
  decimalsA :: nat
  decimalsB :: nat
  a2b :: bool
  byAmountIn :: bool
  amount :: BN
  swapTicks :: "TickData list"
  currentPool :: Pool

text \<open>
  \<open>CalculateRatesResult\<close> without \<open>priceImpactPct\<close>: that field is floating-point arithmetic
  on \<open>Decimal.toNumber()\<close> values and takes no part in what is proved here.
\<close>

record CalculateRatesResult =
  estimatedAmountIn :: BN
  estimatedAmountOut :: BN
  estimatedEndSqrtPrice :: BN
  estimatedFeeAmount :: BN
  isExceed :: bool
  extraComputeLimit :: int
  amount :: BN
  aToB :: bool
  byAmountIn :: bool

text \<open>
  What \<open>calculateRates\<close> imports from files that are not among the sources
  (\<open>types/clmmpool\<close>, \<open>math/clmm\<close>, \<open>math/swap\<close>), taken as parameters: the conversion of the
  pool into the simulator's pool data, the swap simulation itself, and the default price
  limit of a direction. They are functions of their arguments: they return a value and
  assign to nothing that the caller holds.
\<close>

record 'pd SwapImports =
  transClmmpoolDataWithoutTicks :: "Pool \<Rightarrow> 'pd"
  computeSwap :: "bool \<Rightarrow> bool \<Rightarrow> BN \<Rightarrow> 'pd \<Rightarrow> TickData list \<Rightarrow> error + SwapResult"
  getDefaultSqrtPriceLimit :: "bool \<Rightarrow> BN"

text \<open>
  \<open>Array.prototype.sort\<close> with the comparators \<open>b.index - a.index\<close> and
  \<open>a.index - b.index\<close>: a stable sort by index, descending and ascending. It sorts the
  caller's array in place and returns that same array.
\<close>

definition sortTicks :: "bool \<Rightarrow> TickData list \<Rightarrow> TickData list" where
  "sortTicks a2b_flag ts =
     (if a2b_flag then sort_key (\<lambda>t. - index t) ts else sort_key index ts)"

text \<open>
  \<open>calculateRates(params)\<close>. The first component is the caller's \<open>params\<close> object as the call
  leaves it (the pool snapshot \<open>params.currentPool\<close> and the array \<open>params.swapTicks\<close>
  among its fields), the second the returned value or the error thrown. The only
  assignment of the source is the in-place sort of \<open>params.swapTicks\<close>. The \<open>console.log\<close>
  calls are left out.
\<close>

definition calculateRates :: "'pd SwapImports \<Rightarrow> CalculateRatesParams
    \<Rightarrow> CalculateRatesParams \<times> (error + CalculateRatesResult)" where
  "calculateRates ext params =
     (let poolData = transClmmpoolDataWithoutTicks ext (currentPool params);
          ticks = sortTicks (a2b params) (swapTicks params)
      in (params\<lparr>swapTicks := ticks\<rparr>,
          bindE (computeSwap ext (a2b params) (CalculateRatesParams.byAmountIn params)
                   (CalculateRatesParams.amount params) poolData ticks) (\<lambda>swapResult.
            (let isExceed0 =
                   (if CalculateRatesParams.byAmountIn params
                    then amountIn swapResult < CalculateRatesParams.amount params
                    else amountOut swapResult < CalculateRatesParams.amount params);
                 sqrtPriceLimit = getDefaultSqrtPriceLimit ext (a2b params);
                 isExceed1 = (if a2b params \<and> nextSqrtPrice swapResult < sqrtPriceLimit
                              then True else isExceed0);
                 isExceed2 = (if \<not> a2b params \<and> nextSqrtPrice swapResult > sqrtPriceLimit
                              then True else isExceed1);
                 extraComputeLimit0 =
                   (if crossTickNum swapResult > 6 \<and> crossTickNum swapResult < 40
                    then 22000 * (crossTickNum swapResult - 6) else 0);
                 isExceed3 = (if crossTickNum swapResult > 40 then True else isExceed2)
             in Inr \<lparr>estimatedAmountIn = amountIn swapResult,
                     estimatedAmountOut = amountOut swapResult,
                     estimatedEndSqrtPrice = nextSqrtPrice swapResult,
                     estimatedFeeAmount = feeAmount swapResult,
                     isExceed = isExceed3,
                     extraComputeLimit = extraComputeLimit0,
                     amount = CalculateRatesParams.amount params,
                     aToB = a2b params,
                     byAmountIn = CalculateRatesParams.byAmountIn params\<rparr>))))"

section \<open>The swap simulation (\<open>math/clmm\<close>, not among the sources)\<close>

text \<open>
  Modelled from the spec: \<open>computeSwap\<close>, the \<open>simulateSwap\<close> of section 6, is missing. Its
  input \<open>amount\<close> is unsigned and must be greater than 0 (section 4.3), and section 7 has
  \<open>InvalidAmount\<close>, an amount of 0 or less, rejected immediately. Everything the simulation
  does past that check (the other checks of section 7 and the loop of section 4.3) is the
  parameter \<open>rest\<close>.
\<close>

definition simulateSwap :: "(bool \<Rightarrow> bool \<Rightarrow> BN \<Rightarrow> 'pd \<Rightarrow> TickData list \<Rightarrow> error + SwapResult)
    \<Rightarrow> bool \<Rightarrow> bool \<Rightarrow> BN \<Rightarrow> 'pd \<Rightarrow> TickData list \<Rightarrow> error + SwapResult" where
  "simulateSwap rest direction exactInput amt poolSnapshot ticks =
     (if amt \<le> 0 then Inl InvalidAmount
      else rest direction exactInput amt poolSnapshot ticks)"

section \<open>The specification's formulas\<close>




text \<open>
  Section 4.3: the order a tick sequence must have for a direction, descending by index for
  A to B and ascending for B to A (equal indices are what a stable sort can leave side by
  side).
\<close>

definition tickOrder_spec :: "bool \<Rightarrow> TickData \<Rightarrow> TickData \<Rightarrow> bool" where
  "tickOrder_spec a2b_flag s t = (if a2b_flag then index t \<le> index s else index s \<le> index t)"

section \<open>Example data\<close>

definition exampleRewarders :: "Rewarder list" where
  "exampleRewarders =
     [\<lparr>coinAddress = ''0x2::sui::SUI'', emissions_per_second = 18446744073709551616,
       growth_global = 0\<rparr>,
      \<lparr>coinAddress = ''0x5::cetus::CETUS'', emissions_per_second = 0, growth_global = 5\<rparr>,
      \<lparr>coinAddress = ''0x7::usdc::USDC'', emissions_per_second = 36893488147419103232,
       growth_global = 1\<rparr>]"

definition examplePool :: Pool where
  "examplePool = \<lparr>Pool.liquidity = 1000000, current_sqrt_price = 18446744073709551616,
     current_tick_index = 0, rewarder_infos = exampleRewarders,
     rewarder_last_updated_time = 1000\<rparr>"

definition emptyPool :: Pool where
  "emptyPool = \<lparr>Pool.liquidity = 0, current_sqrt_price = 18446744073709551616,
     current_tick_index = 0, rewarder_infos = exampleRewarders,
     rewarder_last_updated_time = 1000\<rparr>"

definition exampleTickLower :: TickData where
  "exampleTickLower = \<lparr>index = - 10, sqrtPrice = 18437523007186144736, liquidityNet = 500000,
     rewardersGrowthOutside = [0, 0, 0]\<rparr>"

definition exampleTickUpper :: TickData where
  "exampleTickUpper = \<lparr>index = 10, sqrtPrice = 18455969752144656067, liquidityNet = - 500000,
     rewardersGrowthOutside = [0, 0, 0]\<rparr>"



definition exampleModule :: "unit RewarderModule" where
  "exampleModule =
     \<lparr>sdk = (), growthGlobal = [184467440737095516160, 5, 129127208515966861312]\<rparr>"

text \<open>
  Imports for concrete runs of \<open>calculateRates\<close>: a simulation that yields the given outcome, the
  pool handed on as it is, and the price limits \<open>MIN_SQRT_PRICE\<close> and \<open>MAX_SQRT_PRICE\<close>.
\<close>

definition exampleImports :: "error + SwapResult \<Rightarrow> Pool SwapImports" where
  "exampleImports outcome =
     \<lparr>transClmmpoolDataWithoutTicks = (\<lambda>pool. pool),
      computeSwap = (\<lambda>_ _ _ _ _. outcome),
      getDefaultSqrtPriceLimit = (\<lambda>a2b_flag. if a2b_flag then 4295048016
                                  else 79226673515401279992447579055)\<rparr>"

definition exampleParams :: CalculateRatesParams where
  "exampleParams = \<lparr>decimalsA = 8, decimalsB = 8, a2b = True,
     CalculateRatesParams.byAmountIn = True, CalculateRatesParams.amount = 100000,
     swapTicks = [exampleTickLower, exampleTickUpper], currentPool = examplePool\<rparr>"

definition zeroAmountParams :: CalculateRatesParams where
  "zeroAmountParams = \<lparr>decimalsA = 8, decimalsB = 8, a2b = True,
     CalculateRatesParams.byAmountIn = True, CalculateRatesParams.amount = 0,
     swapTicks = [exampleTickUpper, exampleTickLower], currentPool = examplePool\<rparr>"

definition b2aParams :: CalculateRatesParams where
  "b2aParams = \<lparr>decimalsA = 8, decimalsB = 8, a2b = False,
     CalculateRatesParams.byAmountIn = True, CalculateRatesParams.amount = 100000,
     swapTicks = [exampleTickUpper, exampleTickLower], currentPool = examplePool\<rparr>"

text \<open>A swap that took \<open>input\<close> of token A in and crossed \<open>crossed\<close> ticks.\<close>

definition exampleSwapResult :: "BN \<Rightarrow> int \<Rightarrow> SwapResult" where
  "exampleSwapResult input crossed = \<lparr>amountIn = input, amountOut = 99650, feeAmount = 300,
     nextSqrtPrice = 18444905757600000000, crossTickNum = crossed\<rparr>"

definition emptySwapResult :: SwapResult where
  "emptySwapResult = \<lparr>amountIn = 0, amountOut = 0, feeAmount = 0,
     nextSqrtPrice = 18446744073709551616, crossTickNum = 0\<rparr>"

text \<open>
  Imports whose simulation is the specification's: the amount check, and past it a run
  that yields the given outcome.
\<close>

definition checkedImports :: "error + SwapResult \<Rightarrow> Pool SwapImports" where
  "checkedImports outcome =
     \<lparr>transClmmpoolDataWithoutTicks = (\<lambda>pool. pool),
      computeSwap = simulateSwap (\<lambda>_ _ _ _ _. outcome),
      getDefaultSqrtPriceLimit = (\<lambda>a2b_flag. if a2b_flag then 4295048016
                                  else 79226673515401279992447579055)\<rparr>"



section \<open>Reward accrual\<close>
















section \<open>\<open>updatePoolRewarder\<close>: the guard before the division\<close>

lemma rewarderLoop_divisor:
  "liq \<noteq> 0 \<Longrightarrow> snd (rewarderLoop timeDelta liq rs i g) \<noteq> Some DivisionByZero"
  by (induction rs arbitrary: i g) (auto simp: checkMulDivFloor_def Let_def split: sum.splits)

text \<open>
  C10. \<open>updatePoolRewarder\<close> never fails with a division by zero. When the pool's liquidity is 0
  or the current time equals the last update time it returns the pool (with the update time
  set) and leaves the module, and so the cached growth array, as it was; the cached array
  changes only when the liquidity is nonzero and the time differs.
\<close>

theorem updatePoolRewarder_guard:
  "snd (updatePoolRewarder this fetched currentTime) \<noteq> Inl DivisionByZero \<and>
   (Pool.liquidity fetched = 0 \<or> currentTime = rewarder_last_updated_time fetched \<longrightarrow>
      updatePoolRewarder this fetched currentTime =
        (this, Inr (fetched\<lparr>rewarder_last_updated_time := currentTime\<rparr>))) \<and>
   (growthGlobal (fst (updatePoolRewarder this fetched currentTime)) \<noteq> growthGlobal this \<longrightarrow>
      Pool.liquidity fetched \<noteq> 0 \<and> currentTime \<noteq> rewarder_last_updated_time fetched)"
proof -
  let ?timeDelta = "bn_div currentTime 1000 - rewarder_last_updated_time fetched + 15"
  let ?loop = "rewarderLoop ?timeDelta (Pool.liquidity fetched) (rewarder_infos fetched) 0
      (growthGlobal this)"
  have early: "updatePoolRewarder this fetched currentTime =
      (this, Inr (fetched\<lparr>rewarder_last_updated_time := currentTime\<rparr>))"
    if "Pool.liquidity fetched = 0 \<or> currentTime = rewarder_last_updated_time fetched"
    using that by (auto simp: updatePoolRewarder_def Let_def)
  have nodiv: "snd (updatePoolRewarder this fetched currentTime) \<noteq> Inl DivisionByZero"
  proof (cases "Pool.liquidity fetched = 0 \<or> currentTime = rewarder_last_updated_time fetched")
    case True
    then show ?thesis by (simp add: early)
  next
    case False
    then have liq: "Pool.liquidity fetched \<noteq> 0" by simp
    obtain g e where loop: "?loop = (g, e)" by (cases ?loop)
    with rewarderLoop_divisor [OF liq, of ?timeDelta "rewarder_infos fetched" 0 "growthGlobal this"]
    have "e \<noteq> Some DivisionByZero" by simp
    with False loop show ?thesis
      by (auto simp: updatePoolRewarder_def Let_def split: option.splits)
  qed
  from early nodiv show ?thesis by auto
qed

text \<open>
  A pool without liquidity leaves the example module as it was; the example pool (liquidity
  1000000, last update at 1000) at time 2000000 changes the cached array.
\<close>

theorem updatePoolRewarder_guard_witness:
  "Pool.liquidity emptyPool = 0 \<and>
   updatePoolRewarder exampleModule emptyPool 2000000 =
     (exampleModule, Inr (emptyPool\<lparr>rewarder_last_updated_time := 2000000\<rparr>)) \<and>
   growthGlobal (fst (updatePoolRewarder exampleModule examplePool 2000000))
     \<noteq> growthGlobal exampleModule \<and>
   Pool.liquidity examplePool \<noteq> 0 \<and> 2000000 \<noteq> rewarder_last_updated_time examplePool"
proof -
  have z: "Pool.liquidity emptyPool = 0" by (simp add: emptyPool_def)
  have u: "fst (updatePoolRewarder exampleModule examplePool 2000000) =
      \<lparr>sdk = (), growthGlobal = [18723445234815194, 5, 37446890469630390]\<rparr>"
    by code_simp
  have c: "growthGlobal (fst (updatePoolRewarder exampleModule examplePool 2000000))
      \<noteq> growthGlobal exampleModule"
    unfolding u by (simp add: exampleModule_def)
  from updatePoolRewarder_guard [of exampleModule emptyPool 2000000]
    updatePoolRewarder_guard [of exampleModule examplePool 2000000] z c
  show ?thesis by simp
qed

section \<open>\<open>calculateRates\<close>\<close>

lemma sorted_descending:
  "sorted (map (\<lambda>t. - index t) ts) = sorted_wrt (\<lambda>s t. index t \<le> index s) ts"
  by (simp add: sorted_map)

lemma tickOrder_spec_direction:
  "tickOrder_spec True = (\<lambda>s t. index t \<le> index s)"
  "tickOrder_spec False = (\<lambda>s t. index s \<le> index t)"
  by (intro ext, simp add: tickOrder_spec_def)+

lemma sortTicks_ordered: "sorted_wrt (tickOrder_spec d) (sortTicks d ts)"
proof (cases d)
  case True
  have "sorted (map (\<lambda>t. - index t) (sort_key (\<lambda>t. - index t) ts))"
    by (rule sorted_sort_key)
  with True show ?thesis
    by (simp add: sortTicks_def tickOrder_spec_direction sorted_descending)
next
  case False
  have "sorted (map index (sort_key index ts))"
    by (rule sorted_sort_key)
  with False show ?thesis
    by (simp add: sortTicks_def tickOrder_spec_direction sorted_map)
qed

lemma sortTicks_keeps_ordered:
  assumes "sorted_wrt (tickOrder_spec d) ts"
  shows "sortTicks d ts = ts"
proof (cases d)
  case True
  with assms have "sorted (map (\<lambda>t. - index t) ts)"
    by (simp add: tickOrder_spec_direction sorted_descending)
  with True show ?thesis
    by (simp add: sortTicks_def sort_key_id_if_sorted)
next
  case False
  with assms have "sorted (map index ts)"
    by (simp add: tickOrder_spec_direction sorted_map)
  with False show ?thesis
    by (simp add: sortTicks_def sort_key_id_if_sorted)
qed

lemma sortTicks_permutation:
  assumes "mset ts' = mset ts" and "distinct (map index ts')"
  shows "sortTicks d ts' = sortTicks d ts"
proof -
  from assms(2) have inj: "inj_on index (set ts')"
    by (simp add: distinct_map)
  then have inj': "inj_on (\<lambda>t. - index t) (set ts')"
    by (auto simp: inj_on_def)
  have "sort_key f ts' = sort_key f ts" if "inj_on f (set ts')" for f :: "TickData \<Rightarrow> int"
    using assms(1) that by (intro sort_key_inj_key_eq) simp_all
  with inj inj' show ?thesis by (simp add: sortTicks_def)
qed

lemma calculateRates_params:
  "fst (calculateRates ext params) =
     params\<lparr>swapTicks := sortTicks (a2b params) (swapTicks params)\<rparr>"
  by (simp add: calculateRates_def Let_def)

lemma example_sort:
  "sortTicks True [exampleTickLower, exampleTickUpper] = [exampleTickUpper, exampleTickLower]"
  "sortTicks True [exampleTickUpper, exampleTickLower] = [exampleTickUpper, exampleTickLower]"
  "sortTicks False [exampleTickUpper, exampleTickLower] = [exampleTickLower, exampleTickUpper]"
  by (simp_all add: sortTicks_def exampleTickLower_def exampleTickUpper_def)

text \<open>
  C4, as the code has it. \<open>calculateRates\<close> checks nothing about the tick sequence: it sorts
  the supplied sequence itself and hands the sorted sequence to \<open>computeSwap\<close>. It fails with
  \<open>MalformedTickData\<close> exactly when \<open>computeSwap\<close> fails so on the sorted sequence, and any
  arrangement of the same ticks with distinct indices gives the same outcome.
\<close>

theorem calculateRates_sorts_itself:
  "(snd (calculateRates ext params) = Inl MalformedTickData) =
     (computeSwap ext (a2b params) (CalculateRatesParams.byAmountIn params)
        (CalculateRatesParams.amount params)
        (transClmmpoolDataWithoutTicks ext (currentPool params))
        (sortTicks (a2b params) (swapTicks params)) = Inl MalformedTickData) \<and>
   (\<forall>ts. mset ts = mset (swapTicks params) \<and> distinct (map index ts) \<longrightarrow>
      calculateRates ext (params\<lparr>swapTicks := ts\<rparr>) = calculateRates ext params)"
proof -
  have "calculateRates ext (params\<lparr>swapTicks := ts\<rparr>) = calculateRates ext params"
    if "mset ts = mset (swapTicks params)" and "distinct (map index ts)" for ts
    using sortTicks_permutation [OF that, of "a2b params"]
    by (simp add: calculateRates_def Let_def cong: if_cong)
  moreover have "(snd (calculateRates ext params) = Inl MalformedTickData) =
     (computeSwap ext (a2b params) (CalculateRatesParams.byAmountIn params)
        (CalculateRatesParams.amount params)
        (transClmmpoolDataWithoutTicks ext (currentPool params))
        (sortTicks (a2b params) (swapTicks params)) = Inl MalformedTickData)"
    by (auto simp: calculateRates_def bindE_def Let_def split: sum.splits)
  ultimately show ?thesis by blast
qed

text \<open>
  The example ticks in ascending and in descending order give the same outcome of an A to B
  call.
\<close>

theorem calculateRates_sorts_itself_witness:
  "mset [exampleTickUpper, exampleTickLower] = mset (swapTicks exampleParams) \<and>
   distinct (map index [exampleTickUpper, exampleTickLower]) \<and>
   calculateRates (exampleImports (Inr (exampleSwapResult 100000 0)))
     (exampleParams\<lparr>swapTicks := [exampleTickUpper, exampleTickLower]\<rparr>) =
   calculateRates (exampleImports (Inr (exampleSwapResult 100000 0))) exampleParams"
proof -
  have m: "mset [exampleTickUpper, exampleTickLower] = mset (swapTicks exampleParams)"
    by (simp add: exampleParams_def)
  have d: "distinct (map index [exampleTickUpper, exampleTickLower])"
    by (simp add: exampleTickLower_def exampleTickUpper_def)
  from calculateRates_sorts_itself [of "exampleImports (Inr (exampleSwapResult 100000 0))"
      exampleParams] m d
  show ?thesis by blast
qed

text \<open>
  C4 as stated fails: an A to B call needs the ticks descending, the example supplies them
  ascending (-10, 10); the call is not rejected but returns a result, and the supplied array
  is left reordered to 10, -10.
\<close>

theorem calculateRates_accepts_unordered:
  "map index (swapTicks exampleParams) = [- 10, 10] \<and> a2b exampleParams \<and>
   calculateRates (exampleImports (Inr (exampleSwapResult 100000 0))) exampleParams =
     (exampleParams\<lparr>swapTicks := [exampleTickUpper, exampleTickLower]\<rparr>,
      Inr \<lparr>estimatedAmountIn = 100000, estimatedAmountOut = 99650,
            estimatedEndSqrtPrice = 18444905757600000000, estimatedFeeAmount = 300,
            isExceed = False, extraComputeLimit = 0, amount = 100000, aToB = True,
            byAmountIn = True\<rparr>)"
  by (simp add: calculateRates_def Let_def bindE_def exampleParams_def exampleImports_def
      exampleSwapResult_def example_sort)
  (simp add: exampleTickLower_def exampleTickUpper_def)

text \<open>
  The test \<open>crossTickNum > 40\<close>: when \<open>computeSwap\<close> returns a result that crossed more than
  40 ticks, \<open>calculateRates\<close> returns a result, not an error, and that result has
  \<open>isExceed = true\<close>.
\<close>

lemma calculateRates_cross_limit:
  assumes "computeSwap ext (a2b params) (CalculateRatesParams.byAmountIn params)
             (CalculateRatesParams.amount params)
             (transClmmpoolDataWithoutTicks ext (currentPool params))
             (sortTicks (a2b params) (swapTicks params)) = Inr swapResult"
      and "40 < crossTickNum swapResult"
  shows "\<exists>res. snd (calculateRates ext params) = Inr res \<and> isExceed res \<and>
           estimatedAmountIn res = amountIn swapResult \<and>
           estimatedAmountOut res = amountOut swapResult"
  using assms by (simp add: calculateRates_def bindE_def Let_def)

text \<open>A fully filled swap within the price limit that crossed 41 ticks is flagged.\<close>

lemma calculateRates_cross_limit_example:
  "40 < crossTickNum (exampleSwapResult 100000 41) \<and>
   (\<exists>res. snd (calculateRates (exampleImports (Inr (exampleSwapResult 100000 41)))
              exampleParams) = Inr res \<and>
          isExceed res \<and> estimatedAmountIn res = 100000 \<and> estimatedAmountOut res = 99650)"
proof -
  have c: "computeSwap (exampleImports (Inr (exampleSwapResult 100000 41))) (a2b exampleParams)
      (CalculateRatesParams.byAmountIn exampleParams) (CalculateRatesParams.amount exampleParams)
      (transClmmpoolDataWithoutTicks (exampleImports (Inr (exampleSwapResult 100000 41)))
         (currentPool exampleParams))
      (sortTicks (a2b exampleParams) (swapTicks exampleParams)) = Inr (exampleSwapResult 100000 41)"
    by (simp add: exampleImports_def)
  have n: "40 < crossTickNum (exampleSwapResult 100000 41)"
    by (simp add: exampleSwapResult_def)
  from calculateRates_cross_limit [OF c n] n show ?thesis
    by (simp add: exampleSwapResult_def)
qed

text \<open>
  C5. A crossing count that reaches the cap of 40 is to come back with \<open>isExceed = true\<close>.
  The code misses the count 40 itself, which falls between its two tests
  \<open>crossTickNum < 40\<close> (the extra compute budget) and \<open>crossTickNum > 40\<close> (the flag): a fully
  filled swap within the price limit that crossed exactly 40 ticks comes back with
  \<open>isExceed = false\<close> and with no extra compute budget, where 39 crossings get a budget of
  726000 and 41 crossings the flag.
\<close>

theorem calculateRates_forty_crossings:
  "snd (calculateRates (exampleImports (Inr (exampleSwapResult 100000 40))) exampleParams) =
     Inr \<lparr>estimatedAmountIn = 100000, estimatedAmountOut = 99650,
           estimatedEndSqrtPrice = 18444905757600000000, estimatedFeeAmount = 300,
           isExceed = False, extraComputeLimit = 0, amount = 100000, aToB = True,
           byAmountIn = True\<rparr> \<and>
   snd (calculateRates (exampleImports (Inr (exampleSwapResult 100000 39))) exampleParams) =
     Inr \<lparr>estimatedAmountIn = 100000, estimatedAmountOut = 99650,
           estimatedEndSqrtPrice = 18444905757600000000, estimatedFeeAmount = 300,
           isExceed = False, extraComputeLimit = 726000, amount = 100000, aToB = True,
           byAmountIn = True\<rparr> \<and>
   snd (calculateRates (exampleImports (Inr (exampleSwapResult 100000 41))) exampleParams) =
     Inr \<lparr>estimatedAmountIn = 100000, estimatedAmountOut = 99650,
           estimatedEndSqrtPrice = 18444905757600000000, estimatedFeeAmount = 300,
           isExceed = True, extraComputeLimit = 0, amount = 100000, aToB = True,
           byAmountIn = True\<rparr>"
  by (simp add: calculateRates_def Let_def bindE_def exampleParams_def exampleImports_def
      exampleSwapResult_def)

text \<open>
  C6. An exact-input call whose returned amount in is strictly below the requested amount
  has \<open>isExceed = true\<close>.
\<close>

theorem calculateRates_partial_fill:
  assumes "CalculateRatesParams.byAmountIn params"
      and "snd (calculateRates ext params) = Inr res"
      and "estimatedAmountIn res < CalculateRatesParams.amount params"
  shows "isExceed res"
  using assms
  by (auto simp: calculateRates_def bindE_def Let_def split: sum.splits if_splits)

text \<open>Of the 100000 requested, the simulation took 60000 in without crossing a tick.\<close>

theorem calculateRates_partial_fill_witness:
  "CalculateRatesParams.byAmountIn exampleParams \<and>
   snd (calculateRates (exampleImports (Inr (exampleSwapResult 60000 0))) exampleParams) =
     Inr \<lparr>estimatedAmountIn = 60000, estimatedAmountOut = 99650,
           estimatedEndSqrtPrice = 18444905757600000000, estimatedFeeAmount = 300,
           isExceed = True, extraComputeLimit = 0, amount = 100000, aToB = True,
           byAmountIn = True\<rparr> \<and>
   (60000::int) < CalculateRatesParams.amount exampleParams"
proof -
  let ?res = "\<lparr>estimatedAmountIn = 60000, estimatedAmountOut = 99650,
           estimatedEndSqrtPrice = 18444905757600000000, estimatedFeeAmount = 300,
           isExceed = True, extraComputeLimit = 0, amount = 100000, aToB = True,
           byAmountIn = True\<rparr>"
  have b: "CalculateRatesParams.byAmountIn exampleParams"
    by (simp add: exampleParams_def)
  have r: "snd (calculateRates (exampleImports (Inr (exampleSwapResult 60000 0))) exampleParams) =
     Inr ?res"
    by (simp add: calculateRates_def Let_def bindE_def exampleParams_def exampleImports_def
        exampleSwapResult_def)
  have l: "estimatedAmountIn ?res < CalculateRatesParams.amount exampleParams"
    by (simp add: exampleParams_def)
  from calculateRates_partial_fill [OF b r l] b r l show ?thesis by simp
qed

text \<open>
  C7. With the simulation of the specification behind it, every call of \<open>calculateRates\<close>
  with an amount of 0 or less fails with \<open>InvalidAmount\<close>, whatever the simulation would do
  past its amount check: \<open>calculateRates\<close> has no check of its own, and it passes the error
  of \<open>computeSwap\<close> on without catching or retrying.
\<close>

theorem calculateRates_invalid_amount:
  assumes "CalculateRatesParams.amount params \<le> 0"
      and "computeSwap ext = simulateSwap rest"
  shows "snd (calculateRates ext params) = Inl InvalidAmount"
  using assms by (simp add: calculateRates_def Let_def bindE_def simulateSwap_def)

text \<open>
  An amount of 0 is rejected though the run past the check would return; the amount 100000
  is let through.
\<close>

theorem calculateRates_invalid_amount_witness:
  "CalculateRatesParams.amount zeroAmountParams \<le> 0 \<and>
   computeSwap (checkedImports (Inr emptySwapResult)) =
     simulateSwap (\<lambda>_ _ _ _ _. Inr emptySwapResult) \<and>
   snd (calculateRates (checkedImports (Inr emptySwapResult)) zeroAmountParams) =
     Inl InvalidAmount \<and>
   (\<exists>res. snd (calculateRates (checkedImports (Inr (exampleSwapResult 100000 0)))
              exampleParams) = Inr res)"
proof -
  have z: "CalculateRatesParams.amount zeroAmountParams \<le> 0"
    by (simp add: zeroAmountParams_def)
  have c: "computeSwap (checkedImports (Inr emptySwapResult)) =
      simulateSwap (\<lambda>_ _ _ _ _. Inr emptySwapResult)"
    by (simp add: checkedImports_def)
  have p: "\<exists>res. snd (calculateRates (checkedImports (Inr (exampleSwapResult 100000 0)))
              exampleParams) = Inr res"
    by (simp add: calculateRates_def Let_def bindE_def simulateSwap_def checkedImports_def
        exampleParams_def)
  from calculateRates_invalid_amount [OF z c] z c p show ?thesis by simp
qed

text \<open>
  C8, as the code has it. \<open>calculateRates\<close> leaves the supplied pool snapshot, and every
  other field of \<open>params\<close>, exactly as the caller passed it, but it sorts the supplied
  \<open>swapTicks\<close> array in place: after the call the array holds the same ticks, ordered for the
  direction of the call (descending by index for A to B, ascending for B to A), and
  \<open>params\<close> is as the caller passed it when the array was so ordered already.
\<close>

theorem calculateRates_sorts_in_place:
  "currentPool (fst (calculateRates ext params)) = currentPool params \<and>
   fst (calculateRates ext params) =
     params\<lparr>swapTicks := swapTicks (fst (calculateRates ext params))\<rparr> \<and>
   mset (swapTicks (fst (calculateRates ext params))) = mset (swapTicks params) \<and>
   sorted_wrt (tickOrder_spec (a2b params)) (swapTicks (fst (calculateRates ext params))) \<and>
   (sorted_wrt (tickOrder_spec (a2b params)) (swapTicks params) \<longrightarrow>
      fst (calculateRates ext params) = params)"
proof -
  have m: "mset (sortTicks (a2b params) (swapTicks params)) = mset (swapTicks params)"
    by (simp add: sortTicks_def)
  have k: "sortTicks (a2b params) (swapTicks params) = swapTicks params"
    if "sorted_wrt (tickOrder_spec (a2b params)) (swapTicks params)"
    using that by (rule sortTicks_keeps_ordered)
  show ?thesis
    unfolding calculateRates_params
    using m k sortTicks_ordered [of "a2b params" "swapTicks params"] by simp
qed

text \<open>Ticks supplied in descending order stay as they are in an A to B call.\<close>

theorem calculateRates_sorts_in_place_witness:
  "sorted_wrt (tickOrder_spec (a2b zeroAmountParams)) (swapTicks zeroAmountParams) \<and>
   fst (calculateRates (exampleImports (Inr emptySwapResult)) zeroAmountParams) =
     zeroAmountParams \<and>
   currentPool (fst (calculateRates (exampleImports (Inr emptySwapResult)) zeroAmountParams)) =
     examplePool"
proof -
  have s: "sorted_wrt (tickOrder_spec (a2b zeroAmountParams)) (swapTicks zeroAmountParams)"
    by (simp add: zeroAmountParams_def tickOrder_spec_def exampleTickLower_def
        exampleTickUpper_def)
  from calculateRates_sorts_in_place [of "exampleImports (Inr emptySwapResult)" zeroAmountParams] s
  show ?thesis by (simp add: zeroAmountParams_def)
qed

text \<open>
  C8 as stated fails: a B to A call with the ticks supplied as 10, -10 leaves the caller's
  array as -10, 10, also when the simulation fails; the pool snapshot is as it was.
\<close>

theorem calculateRates_reorders_input:
  "swapTicks b2aParams = [exampleTickUpper, exampleTickLower] \<and>
   swapTicks (fst (calculateRates (exampleImports (Inl Overflow)) b2aParams)) =
     [exampleTickLower, exampleTickUpper] \<and>
   [exampleTickLower, exampleTickUpper] \<noteq> [exampleTickUpper, exampleTickLower] \<and>
   currentPool (fst (calculateRates (exampleImports (Inl Overflow)) b2aParams)) =
     currentPool b2aParams"
  by (simp add: calculateRates_params b2aParams_def example_sort)
  (simp add: exampleTickLower_def exampleTickUpper_def)

end
